theory Spec2Isabelle
  imports Main "HOL-Library.Product_Lexorder"
begin

section \<open>Calendar dates\<close>

text \<open>
  The property model of \<^verbatim>\<open>src/models.py\<close> works on \<^verbatim>\<open>datetime.date\<close> values, on
  \<^verbatim>\<open>calendar.monthrange\<close>, on \<^verbatim>\<open>datetime.timedelta\<close> and on
  \<^verbatim>\<open>dateutil.relativedelta\<close>. A date is its three fields; every constructor that
  Python lets raise returns a sum here, \<open>Inl\<close> carrying the exception.
\<close>

datatype error =
    ValueError
  | OverflowError
  | NameError
  | AttributeError
  | Invoice_DoesNotExist
  | InvoiceType_DoesNotExist
  | LeaseContract_DoesNotExist
  | MultipleObjectsReturned

record date =
  year :: int
  month :: int
  day :: int

text \<open>Dates compare as Python compares them: by year, then month, then day.\<close>

definition ymd :: "date \<Rightarrow> int \<times> int \<times> int" where
  "ymd d = (year d, month d, day d)"

definition date_lt :: "date \<Rightarrow> date \<Rightarrow> bool" where
  "date_lt a b = (ymd a < ymd b)"

definition date_le :: "date \<Rightarrow> date \<Rightarrow> bool" where
  "date_le a b = (ymd a \<le> ymd b)"

definition isleap :: "int \<Rightarrow> bool" where
  "isleap y = (y mod 4 = 0 \<and> (y mod 100 \<noteq> 0 \<or> y mod 400 = 0))"

text \<open>\<^verbatim>\<open>calendar.mdays\<close>, the length of each month of a common year.\<close>

definition mdays :: "int \<Rightarrow> int" where
  "mdays m = (if m = 2 then 28 else if m = 4 \<or> m = 6 \<or> m = 9 \<or> m = 11 then 30 else 31)"

definition days_in_month :: "int \<Rightarrow> int \<Rightarrow> int" where
  "days_in_month y m = mdays m + (if m = 2 \<and> isleap y then 1 else 0)"

text \<open>
  \<^verbatim>\<open>calendar.monthrange(year, month)[1]\<close>. The call raises for a month outside 1..12
  (\<^verbatim>\<open>IllegalMonthError\<close>, a \<^verbatim>\<open>ValueError\<close>) and for a year outside 1..9999 (it builds
  the first day of the month to find its weekday).
\<close>

definition monthrange :: "int \<Rightarrow> int \<Rightarrow> error + int" where
  "monthrange y m =
     (if 1 \<le> m \<and> m \<le> 12 \<and> 1 \<le> y \<and> y \<le> 9999 then Inr (days_in_month y m)
      else Inl ValueError)"

text \<open>\<^verbatim>\<open>date(year=y, month=m, day=d)\<close>: a \<^verbatim>\<open>ValueError\<close> outside the calendar.\<close>

definition mk_date :: "int \<Rightarrow> int \<Rightarrow> int \<Rightarrow> error + date" where
  "mk_date y m d =
     (if 1 \<le> y \<and> y \<le> 9999 \<and> 1 \<le> m \<and> m \<le> 12 \<and> 1 \<le> d \<and> d \<le> days_in_month y m
      then Inr \<lparr>year = y, month = m, day = d\<rparr>
      else Inl ValueError)"

definition valid_date :: "date \<Rightarrow> bool" where
  "valid_date d =
     (1 \<le> year d \<and> year d \<le> 9999 \<and> 1 \<le> month d \<and> month d \<le> 12 \<and>
      1 \<le> day d \<and> day d \<le> days_in_month (year d) (month d))"

text \<open>
  \<^verbatim>\<open>d - relativedelta(months=1)\<close>: the month goes back by one, the year with it in
  January, and the day is cut to the length of the month reached; the new date is then
  built by \<^verbatim>\<open>date.replace\<close>.
\<close>

definition sub_one_month :: "date \<Rightarrow> error + date" where
  "sub_one_month d =
     (let m = month d - 1;
          y' = (if m < 1 then year d - 1 else year d);
          m' = (if m < 1 then m + 12 else m)
      in case monthrange y' m' of
           Inl e \<Rightarrow> Inl e
         | Inr n \<Rightarrow> mk_date y' m' (min n (day d)))"

text \<open>
  \<^verbatim>\<open>d + relativedelta(day=x)\<close>: the day becomes \<^verbatim>\<open>min(monthrange(...)[1], x or d.day)\<close>,
  so that an \<open>x\<close> of zero keeps the day.
\<close>

definition set_day :: "date \<Rightarrow> int \<Rightarrow> error + date" where
  "set_day d x =
     (case monthrange (year d) (month d) of
        Inl e \<Rightarrow> Inl e
      | Inr n \<Rightarrow> mk_date (year d) (month d) (min n (if x = 0 then day d else x)))"

text \<open>\<^verbatim>\<open>timedelta(days=n)\<close> holds at most 999999999 days either way.\<close>

definition timedelta :: "int \<Rightarrow> error + int" where
  "timedelta n = (if - 999999999 \<le> n \<and> n \<le> 999999999 then Inr n else Inl OverflowError)"

text \<open>The proleptic Gregorian ordinal of a date and its inverse, as \<^verbatim>\<open>datetime\<close> computes them.\<close>

definition days_before_year :: "int \<Rightarrow> int" where
  "days_before_year y = (y - 1) * 365 + (y - 1) div 4 - (y - 1) div 100 + (y - 1) div 400"

definition days_before_month_common :: "int \<Rightarrow> int" where
  "days_before_month_common m =
     (if m = 1 then 0 else if m = 2 then 31 else if m = 3 then 59 else if m = 4 then 90
      else if m = 5 then 120 else if m = 6 then 151 else if m = 7 then 181
      else if m = 8 then 212 else if m = 9 then 243 else if m = 10 then 273
      else if m = 11 then 304 else 334)"

definition days_before_month :: "int \<Rightarrow> int \<Rightarrow> int" where
  "days_before_month y m = days_before_month_common m + (if 2 < m \<and> isleap y then 1 else 0)"

definition toordinal :: "date \<Rightarrow> int" where
  "toordinal d = days_before_year (year d) + days_before_month (year d) (month d) + day d"

definition fromordinal :: "int \<Rightarrow> date" where
  "fromordinal n0 =
     (let n = n0 - 1;
          n400 = n div 146097; n = n mod 146097;
          n100 = n div 36524; n = n mod 36524;
          n4 = n div 1461; n = n mod 1461;
          n1 = n div 365; n = n mod 365;
          y = n400 * 400 + 1 + n100 * 100 + n4 * 4 + n1
      in if n1 = 4 \<or> n100 = 4 then \<lparr>year = y - 1, month = 12, day = 31\<rparr>
         else
           let leapyear = (n1 = 3 \<and> (n4 \<noteq> 24 \<or> n100 = 3));
               m = (n + 50) div 32;
               preceding = days_before_month_common m + (if 2 < m \<and> leapyear then 1 else 0)
           in if n < preceding
              then \<lparr>year = y, month = m - 1,
                    day = n - (preceding - (mdays (m - 1) + (if m - 1 = 2 \<and> leapyear then 1 else 0))) + 1\<rparr>
              else \<lparr>year = y, month = m, day = n - preceding + 1\<rparr>)"

text \<open>\<^verbatim>\<open>d + timedelta(days=n)\<close>: an \<^verbatim>\<open>OverflowError\<close> outside 0001-01-01 .. 9999-12-31.\<close>

definition date_add :: "date \<Rightarrow> int \<Rightarrow> error + date" where
  "date_add d n =
     (let o' = toordinal d + n
      in if 1 \<le> o' \<and> o' \<le> 3652059 then Inr (fromordinal o') else Inl OverflowError)"

section \<open>The record store\<close>

text \<open>
  Modelled from the spec: the declarations of \<^verbatim>\<open>UserProfile\<close>, \<^verbatim>\<open>LeaseContract\<close>,
  \<^verbatim>\<open>ManagementContract\<close>, \<^verbatim>\<open>MaintenanceRequest\<close>, \<^verbatim>\<open>Message\<close>, \<^verbatim>\<open>Invoice\<close> and
  \<^verbatim>\<open>InvoiceType\<close> are imported by \<^verbatim>\<open>src/models.py\<close> from other applications; the fields
  below are those of section 3 of the specification together with the attributes that
  \<^verbatim>\<open>Property\<close> reads. A foreign key holds the row it points to; rows are compared by
  primary key where the object-relational layer does. A table is the list of its rows in
  the order a query returns them.
\<close>

record user_profile =
  up_id :: nat
  email :: string
  phone1 :: string
  phone2 :: "string option"

record lease_contract =
  l_id :: int
  l_tenant :: user_profile
  l_property :: nat
  l_start_date :: date
  l_end_date :: date
  l_rent_due_day :: int
  l_days_grace_period :: int

record invoice_type =
  it_id :: nat
  it_name :: string

record invoice =
  i_id :: int
  i_type :: invoice_type
  i_payer :: user_profile
  i_payee :: user_profile
  i_property :: nat
  i_issued_date :: date
  i_due_date :: "date option"
  i_paid_date :: "date option"
  i_amount :: string

record management_contract =
  c_id :: int
  c_manager :: user_profile
  c_owner :: user_profile
  c_property :: nat
  c_start_date :: date
  c_end_date :: date

text \<open>
  A value that is either a \<^verbatim>\<open>datetime.date\<close> or a \<^verbatim>\<open>datetime.datetime\<close>; of the
  latter the calendar day and the time within it.
\<close>

datatype stamp = ADate date | ADatetime date nat

record maintenance_request =
  r_id :: int
  r_property :: nat
  r_created_by :: user_profile
  r_assignee :: "user_profile option"
  r_headline :: string
  r_creation_date :: stamp
  r_assigned_date :: "date option"
  r_resolution_date :: "date option"

record message =
  m_id :: int
  m_user_profile :: user_profile
  m_property :: nat
  m_sender :: "string option"
  m_recipients :: "string option"
  m_headline :: string
  m_creation_date :: stamp
  m_type_name :: string

text \<open>\<open>owners\<close> is the many-to-many table of \<^verbatim>\<open>Property.owners\<close>: property, owner.\<close>

record store =
  leases :: "lease_contract list"
  contracts :: "management_contract list"
  requests :: "maintenance_request list"
  messages :: "message list"
  invoice_types :: "invoice_type list"
  invoices :: "invoice list"
  owners :: "(nat \<times> nat) list"

text \<open>
  \<^verbatim>\<open>Model.objects.get(...)\<close>: the one matching row, the model's \<^verbatim>\<open>DoesNotExist\<close> when
  there is none, \<^verbatim>\<open>MultipleObjectsReturned\<close> when there are several.
\<close>

definition objects_get :: "error \<Rightarrow> ('a \<Rightarrow> bool) \<Rightarrow> 'a list \<Rightarrow> error + 'a" where
  "objects_get dne P tbl =
     (case filter P tbl of
        [] \<Rightarrow> Inl dne
      | [x] \<Rightarrow> Inr x
      | _ \<Rightarrow> Inl MultipleObjectsReturned)"

section \<open>Rent status\<close>

text \<open>\<^verbatim>\<open>Property.get_active_leases\<close>: the leases of the property in effect on a date.\<close>

definition get_active_leases :: "store \<Rightarrow> nat \<Rightarrow> date \<Rightarrow> lease_contract list" where
  "get_active_leases st self d =
     filter (\<lambda>l. l_property l = self \<and> date_le (l_start_date l) d \<and> date_le d (l_end_date l))
       (leases st)"

text \<open>
  The due date in the month of \<open>today\<close>: the lease's due day, or the last day of the month
  when \<^verbatim>\<open>date(...)\<close> raises \<^verbatim>\<open>ValueError\<close> (lines 114-121).
\<close>

definition this_month_due_date :: "date \<Rightarrow> int \<Rightarrow> error + date" where
  "this_month_due_date today rdd =
     (case mk_date (year today) (month today) rdd of
        Inr d \<Rightarrow> Inr d
      | Inl e \<Rightarrow>
          (case monthrange (year today) (month today) of
             Inl e' \<Rightarrow> Inl e'
           | Inr n \<Rightarrow> mk_date (year today) (month today) n))"

text \<open>The date rent was last due (lines 126-131).\<close>

definition last_due :: "date \<Rightarrow> date \<Rightarrow> int \<Rightarrow> error + date" where
  "last_due today tmdd rdd =
     (if date_lt today tmdd
      then (case sub_one_month tmdd of
              Inl e \<Rightarrow> Inl e
            | Inr ld \<Rightarrow> if day ld \<noteq> rdd then set_day ld rdd else Inr ld)
      else Inr tmdd)"

text \<open>
  One pass of the loop over the leases: either the function returns at once
  (\<open>Return\<close>), or the pass ends with a new value of \<^verbatim>\<open>ret\<close> (\<open>Next\<close>), or it raises.
\<close>

datatype step = Return string | Next string

definition rent_invoice :: "invoice_type \<Rightarrow> date \<Rightarrow> user_profile \<Rightarrow> invoice \<Rightarrow> bool" where
  "rent_invoice rent_type ld payer i =
     (it_id (i_type i) = it_id rent_type \<and> i_due_date i = Some ld \<and> up_id (i_payer i) = up_id payer)"

definition lease_pass :: "store \<Rightarrow> date \<Rightarrow> lease_contract \<Rightarrow> error + step" where
  "lease_pass st today lease =
     (if date_lt today (l_start_date lease) then Inr (Return ''NA'')
      else case this_month_due_date today (l_rent_due_day lease) of
        Inl e \<Rightarrow> Inl e
      | Inr tmdd \<Rightarrow>
      (case timedelta (l_days_grace_period lease) of
        Inl e \<Rightarrow> Inl e
      | Inr grace_period \<Rightarrow>
      (case last_due today tmdd (l_rent_due_day lease) of
        Inl e \<Rightarrow> Inl e
      | Inr ld \<Rightarrow>
      (case objects_get InvoiceType_DoesNotExist (\<lambda>t. it_name t = ''Rent'') (invoice_types st) of
        Inl e \<Rightarrow> Inl e
      | Inr rent_type \<Rightarrow>
      (case objects_get Invoice_DoesNotExist (rent_invoice rent_type ld (l_tenant lease)) (invoices st) of
        Inl e \<Rightarrow> Inl e
      | Inr invoice \<Rightarrow>
          if i_paid_date invoice \<noteq> None then Inr (Next ''Paid'')
          else if date_le ld today
          then (case date_add ld grace_period of
                  Inl e \<Rightarrow> Inl e
                | Inr w \<Rightarrow> if date_le today w then Inr (Next ''Due'') else Inr (Next ''Late''))
          else Inr (Next ''Late''))))))"

fun rent_loop :: "store \<Rightarrow> date \<Rightarrow> lease_contract list \<Rightarrow> string \<Rightarrow> error + string" where
  "rent_loop st today [] ret = Inr ret"
| "rent_loop st today (lease # rest) ret =
     (case lease_pass st today lease of
        Inl e \<Rightarrow> Inl e
      | Inr (Return s) \<Rightarrow> Inr s
      | Inr (Next s) \<Rightarrow> rent_loop st today rest s)"

text \<open>
  \<^verbatim>\<open>Property.get_rent_status\<close> (lines 91-156). \<open>clock\<close> is the value of \<^verbatim>\<open>date.today()\<close>
  at the call: line 106 looks the leases up on that date, not on \<open>today\<close>. The two
  handlers turn \<^verbatim>\<open>Invoice.DoesNotExist\<close> into \<^verbatim>\<open>"!!"\<close> and
  \<^verbatim>\<open>LeaseContract.DoesNotExist\<close> into \<^verbatim>\<open>"NA"\<close>; every other exception leaves the function.
\<close>

definition get_rent_status :: "store \<Rightarrow> date \<Rightarrow> nat \<Rightarrow> date \<Rightarrow> error + string" where
  "get_rent_status st clock self today =
     (case rent_loop st today (get_active_leases st self clock) ''!!'' of
        Inl Invoice_DoesNotExist \<Rightarrow> Inr ''!!''
      | Inl LeaseContract_DoesNotExist \<Rightarrow> Inr ''NA''
      | r \<Rightarrow> r)"

section \<open>Activity feed\<close>

text \<open>
  \<^verbatim>\<open>Property.build_event\<close> (lines 158-181): the six fields of an event. The person is
  kept as its primary key, by which model instances compare and hash.
\<close>

record event =
  ev_headline :: string
  ev_date :: stamp
  ev_person :: nat
  ev_actionText :: string
  ev_action :: string
  ev_type :: string

definition build_event :: "string \<Rightarrow> stamp \<Rightarrow> nat \<Rightarrow> string \<Rightarrow> string \<Rightarrow> string \<Rightarrow> event" where
  "build_event headline date person actionText action type' =
     \<lparr>ev_headline = headline, ev_date = date, ev_person = person,
      ev_actionText = actionText, ev_action = action, ev_type = type'\<rparr>"

definition and_then :: "error + 'a \<Rightarrow> ('a \<Rightarrow> error + 'b) \<Rightarrow> error + 'b" where
  "and_then m f = (case m of Inl e \<Rightarrow> Inl e | Inr x \<Rightarrow> f x)"

text \<open>A loop that appends the events of each row, and stops at the first exception.\<close>

fun collect :: "('a \<Rightarrow> error + event list) \<Rightarrow> 'a list \<Rightarrow> error + event list" where
  "collect f [] = Inr []"
| "collect f (x # xs) =
     (case f x of
        Inl e \<Rightarrow> Inl e
      | Inr es \<Rightarrow> (case collect f xs of Inl e \<Rightarrow> Inl e | Inr rest \<Rightarrow> Inr (es @ rest)))"

text \<open>\<^verbatim>\<open>Property.get_tenants\<close> (lines 36-45).\<close>

definition get_tenants :: "store \<Rightarrow> nat \<Rightarrow> date \<Rightarrow> user_profile list" where
  "get_tenants st self today =
     map l_tenant
       (filter (\<lambda>lease. date_le (l_start_date lease) today \<and> date_le today (l_end_date lease))
          (filter (\<lambda>lease. l_property lease = self) (leases st)))"

text \<open>
  The body shared by the three loops over leases (lines 215-226, 230-241, 244-255).
  \<open>sref\<close> stands for \<^verbatim>\<open>unit_manager.helpers.angular_sref\<close>, which is not part of the
  sources at hand: it is a parameter of the model.
\<close>

definition lease_events :: "(string \<Rightarrow> int \<Rightarrow> string) \<Rightarrow> date \<Rightarrow> lease_contract \<Rightarrow> event list" where
  "lease_events sref today lease =
     build_event ''Lease Started'' (ADate (l_start_date lease)) (up_id (l_tenant lease))
        ''View Lease'' (sref ''lease-detail'' (l_id lease)) ''lease'' #
     (if date_le (l_end_date lease) today
      then [build_event ''Lease Ended'' (ADate (l_end_date lease)) (up_id (l_tenant lease))
              ''View Lease'' (sref ''lease-detail'' (l_id lease)) ''lease'']
      else [])"

text \<open>
  \<^verbatim>\<open>LeaseContract.objects.filter(property__manager=user)\<close>: the join of the leases with
  the management contracts of their property whose manager is the user, one row for each
  pair.
\<close>

definition managed_leases :: "store \<Rightarrow> user_profile \<Rightarrow> lease_contract list" where
  "managed_leases st user =
     concat (map (\<lambda>lease.
        map (\<lambda>c. lease)
          (filter (\<lambda>c. c_property c = l_property lease \<and> up_id (c_manager c) = up_id user)
             (contracts st)))
       (leases st))"

definition contract_events :: "(string \<Rightarrow> int \<Rightarrow> string) \<Rightarrow> date \<Rightarrow> management_contract \<Rightarrow> event list" where
  "contract_events sref today contract =
     build_event ''Management Started'' (ADate (c_start_date contract)) (up_id (c_owner contract))
        ''View Contract'' (sref ''mgmt-contract-detail'' (c_id contract)) ''management'' #
     (if date_le (c_end_date contract) today
      then [build_event ''Management Ended'' (ADate (c_end_date contract)) (up_id (c_owner contract))
              ''View Contract'' (sref ''mgmt-contract-detail'' (c_id contract)) ''management'']
      else [])"

text \<open>
  The two loops over maintenance requests read the variable \<^verbatim>\<open>contract\<close>, which is the
  loop variable of the loop over the management contracts before them: it holds the last
  contract of that loop, and it is unbound when that loop had nothing to run over.
  Reading an unbound local raises \<^verbatim>\<open>UnboundLocalError\<close>, a \<^verbatim>\<open>NameError\<close>.
\<close>

definition loop_variable :: "management_contract list \<Rightarrow> management_contract option" where
  "loop_variable cs = (if cs = [] then None else Some (last cs))"

definition read_contract :: "management_contract option \<Rightarrow> error + management_contract" where
  "read_contract v = (case v of None \<Rightarrow> Inl NameError | Some c \<Rightarrow> Inr c)"

text \<open>
  Modelled from the spec: the declaration of \<^verbatim>\<open>ManagementContract\<close> is missing from the
  sources at hand; section 3 of the specification gives it the fields manager, owner,
  property, start_date and end_date. It has no attribute \<^verbatim>\<open>created_by\<close> and no attribute
  \<^verbatim>\<open>assignee\<close>, so that reading either raises \<^verbatim>\<open>AttributeError\<close>.
\<close>

definition contract_created_by :: "management_contract \<Rightarrow> error + nat" where
  "contract_created_by c = Inl AttributeError"

definition contract_assignee :: "management_contract \<Rightarrow> error + nat" where
  "contract_assignee c = Inl AttributeError"

definition on_or_before :: "date option \<Rightarrow> date \<Rightarrow> bool" where
  "on_or_before d today = (case d of None \<Rightarrow> False | Some d' \<Rightarrow> date_le d' today)"

text \<open>The body of the loop over the requests assigned to the user (lines 278-305).\<close>

definition assigned_request_events ::
  "(string \<Rightarrow> int \<Rightarrow> string) \<Rightarrow> management_contract option \<Rightarrow> date \<Rightarrow> maintenance_request \<Rightarrow> error + event list" where
  "assigned_request_events sref v today request =
     and_then (read_contract v) (\<lambda>contract.
     and_then (contract_created_by contract) (\<lambda>creator.
     and_then
       (if on_or_before (r_resolution_date request) today
        then and_then (contract_assignee contract) (\<lambda>assignee.
               Inr [build_event (''Closed Request: '' @ r_headline request) (r_creation_date request)
                      assignee ''View Request'' (sref ''mgmt-contract-detail'' (c_id contract))
                      ''maintenance''])
        else Inr []) (\<lambda>closed.
     and_then
       (case r_assigned_date request of
          None \<Rightarrow> Inr []
        | Some assigned_date \<Rightarrow>
            if date_le assigned_date today
            then and_then (contract_assignee contract) (\<lambda>assignee.
                   Inr [build_event (''Assigned Request: '' @ r_headline request)
                          (ADate assigned_date)
                          assignee ''View Request'' (sref ''mgmt-contract-detail'' (c_id contract))
                          ''maintenance''])
            else Inr []) (\<lambda>assigned.
     Inr (build_event (''New Request: '' @ r_headline request) (r_creation_date request)
            creator ''View Request'' (sref ''mgmt-contract-detail'' (c_id contract))
            ''maintenance'' # closed @ assigned)))))"

text \<open>The body of the loop over the requests created by the user (lines 309-336).\<close>

definition created_request_events ::
  "(string \<Rightarrow> int \<Rightarrow> string) \<Rightarrow> management_contract option \<Rightarrow> date \<Rightarrow> maintenance_request \<Rightarrow> error + event list" where
  "created_request_events sref v today request =
     and_then
       (if on_or_before (r_resolution_date request) today
        then and_then (read_contract v) (\<lambda>contract.
             and_then (contract_assignee contract) (\<lambda>assignee.
               Inr [build_event (''Closed Request: '' @ r_headline request) (r_creation_date request)
                      assignee ''View Request'' (sref ''maintenance-detail'' (r_id request))
                      ''maintenance'']))
        else Inr []) (\<lambda>closed.
     and_then
       (case r_assigned_date request of
          None \<Rightarrow> Inr []
        | Some assigned_date \<Rightarrow>
            if date_le assigned_date today
            then and_then (read_contract v) (\<lambda>contract.
                 and_then (contract_assignee contract) (\<lambda>assignee.
                   Inr [build_event (''Assigned Request: '' @ r_headline request)
                          (ADate assigned_date)
                          assignee ''View Request'' (sref ''maintenance-detail'' (r_id request))
                          ''maintenance'']))
            else Inr []) (\<lambda>assigned.
     Inr (build_event (''New Request: '' @ r_headline request) (r_creation_date request)
            (up_id (r_created_by request)) ''View Request''
            (sref ''maintenance-detail'' (r_id request)) ''maintenance'' # closed @ assigned)))"

text \<open>
  Messages (lines 340-357). The tenants are those of \<^verbatim>\<open>date.today()\<close>, here \<open>clock\<close>.
  A filter on a value of \<^verbatim>\<open>None\<close> selects the rows whose column is null, so that
  addresses and columns are both optional strings and a row matches on equality.
\<close>

definition contact_values :: "user_profile \<Rightarrow> user_profile list \<Rightarrow> string option list" where
  "contact_values user tenants =
     [Some (email user), Some (phone1 user), phone2 user]
     @ map (\<lambda>tenant. Some (email tenant)) tenants
     @ map (\<lambda>tenant. Some (phone1 tenant)) tenants
     @ map phone2 (filter (\<lambda>tenant. phone2 tenant \<noteq> None) tenants)"

definition message_events ::
  "(string \<Rightarrow> int \<Rightarrow> string) \<Rightarrow> store \<Rightarrow> date \<Rightarrow> nat \<Rightarrow> user_profile \<Rightarrow> event list" where
  "message_events sref st clock self user =
     (let tenants = get_tenants st self clock
      in if 0 < length tenants
         then map (\<lambda>message.
                build_event (m_type_name message @ '': '' @ m_headline message)
                  (m_creation_date message) (up_id user) ''View''
                  (sref ''message-detail'' (m_id message)) (m_type_name message))
              (filter (\<lambda>message.
                 (m_sender message \<in> set (contact_values user tenants)
                  \<or> m_recipients message \<in> set (contact_values user tenants))
                 \<and> m_property message = self
                 \<and> up_id (m_user_profile message) = up_id user)
               (messages st))
         else [])"

text \<open>Invoices (lines 362-390). \<open>i_amount\<close> is the text of \<^verbatim>\<open>str(invoice.amount())\<close>.\<close>

definition other_party :: "user_profile \<Rightarrow> invoice \<Rightarrow> nat" where
  "other_party user invoice =
     (if up_id (i_payer invoice) \<noteq> up_id user then up_id (i_payer invoice)
      else up_id (i_payee invoice))"

definition invoice_events ::
  "(string \<Rightarrow> int \<Rightarrow> string) \<Rightarrow> user_profile \<Rightarrow> date \<Rightarrow> invoice \<Rightarrow> event list" where
  "invoice_events sref user today invoice =
     build_event (it_name (i_type invoice) @ '' Created: '' @ i_amount invoice)
        (ADate (i_issued_date invoice)) (other_party user invoice) ''View Invoice''
        (sref ''invoice-detail'' (i_id invoice)) ''invoice'' #
     (case i_due_date invoice of
        None \<Rightarrow> []
      | Some due_date \<Rightarrow>
          if date_le due_date today
          then [build_event (it_name (i_type invoice) @ '' Due: '' @ i_amount invoice)
                  (ADate due_date) (other_party user invoice) ''View Invoice''
                  (sref ''invoice-detail'' (i_id invoice)) ''invoice'']
          else []) @
     (case i_paid_date invoice of
        None \<Rightarrow> []
      | Some paid_date \<Rightarrow>
          if date_le paid_date today
          then [build_event (it_name (i_type invoice) @ '' Paid: '' @ i_amount invoice)
                  (ADate paid_date) (other_party user invoice) ''View Invoice''
                  (sref ''invoice-detail'' (i_id invoice)) ''invoice'']
          else [])"

text \<open>
  The events before post-processing, in the order the function appends them; an
  exception of either loop over requests ends the function.
\<close>

definition gather ::
  "(string \<Rightarrow> int \<Rightarrow> string) \<Rightarrow> store \<Rightarrow> date \<Rightarrow> nat \<Rightarrow> user_profile \<Rightarrow> date \<Rightarrow> error + event list" where
  "gather sref st clock self user today =
     (let own = concat (map (lease_events sref today)
                  (filter (\<lambda>l. up_id (l_tenant l) = up_id user \<and> l_property l = self) (leases st)));
          owned = (if (self, up_id user) \<in> set (owners st)
                   then concat (map (lease_events sref today)
                          (filter (\<lambda>l. l_property l = self) (leases st)))
                   else []);
          managed = concat (map (lease_events sref today) (managed_leases st user));
          mgmt_contracts = filter (\<lambda>c. up_id (c_manager c) = up_id user \<and> c_property c = self)
                             (contracts st);
          managing = concat (map (contract_events sref today) mgmt_contracts);
          contract = loop_variable mgmt_contracts
      in and_then
           (collect (assigned_request_events sref contract today)
              (filter (\<lambda>r. map_option up_id (r_assignee r) = Some (up_id user) \<and> r_property r = self)
                 (requests st))) (\<lambda>assigned.
         and_then
           (collect (created_request_events sref contract today)
              (filter (\<lambda>r. up_id (r_created_by r) = up_id user \<and> r_property r = self)
                 (requests st))) (\<lambda>created.
         Inr (own @ owned @ managed @ managing @ assigned @ created
              @ message_events sref st clock self user
              @ concat (map (invoice_events sref user today)
                  (filter (\<lambda>i. (up_id (i_payer i) = up_id user \<or> up_id (i_payee i) = up_id user)
                                \<and> i_property i = self) (invoices st)))))))"

text \<open>The key of the final sort (line 392): the calendar day of the event.\<close>

fun day_of :: "stamp \<Rightarrow> date" where
  "day_of (ADate d) = d"
| "day_of (ADatetime d t) = d"

definition sort_key_of :: "event \<Rightarrow> int \<times> int \<times> int" where
  "sort_key_of e = ymd (day_of (ev_date e))"

text \<open>
  \<^verbatim>\<open>list.sort(key=..., reverse=True)\<close> reverses the list, sorts it stably and reverses
  the result.
\<close>

definition sort_reverse :: "event list \<Rightarrow> event list" where
  "sort_reverse xs = rev (sort_key sort_key_of (rev xs))"

text \<open>
  \<^verbatim>\<open>Property.get_activity\<close> (lines 183-393). \<open>listing\<close> stands for the order in which
  Python lists the elements of \<^verbatim>\<open>set(activity)\<close>, which the language leaves open: it is
  a parameter, and \<open>set_listing\<close> says what every such order satisfies.
\<close>

definition set_listing :: "(event list \<Rightarrow> event list) \<Rightarrow> bool" where
  "set_listing listing = (\<forall>xs. distinct (listing xs) \<and> set (listing xs) = set xs)"

definition get_activity ::
  "(string \<Rightarrow> int \<Rightarrow> string) \<Rightarrow> (event list \<Rightarrow> event list) \<Rightarrow> store \<Rightarrow> date \<Rightarrow> nat \<Rightarrow> user_profile \<Rightarrow> date
     \<Rightarrow> error + event list" where
  "get_activity sref listing st clock self user today =
     (case gather sref st clock self user today of
        Inl e \<Rightarrow> Inl e
      | Inr activity \<Rightarrow> Inr (sort_reverse (listing activity)))"

section \<open>The month before, in the words of the specification\<close>

text \<open>
  The specification speaks of the date one month before the due date of the month of
  \<open>today\<close>. These two functions name the year and the month of that date; they follow
  the specification and are compared below with \<open>last_due\<close>, which follows the source.
\<close>

definition spec_prior_year :: "date \<Rightarrow> int" where
  "spec_prior_year d = (if month d = 1 then year d - 1 else year d)"

definition spec_prior_month :: "date \<Rightarrow> int" where
  "spec_prior_month d = (if month d = 1 then 12 else month d - 1)"

section \<open>A sample store\<close>

text \<open>
  One property, number 1, let to Alice for the year 2024 with rent due on the first of
  the month and five days of grace; Bob owns it, and Alice holds a share of it. The rent
  of March 2024 has been invoiced. \<open>plain_sref\<close> is a stand-in for the link builder.
\<close>

definition alice :: user_profile where
  "alice = \<lparr>up_id = 1, email = ''alice@example.org'', phone1 = ''555-0101'', phone2 = None\<rparr>"

definition bob :: user_profile where
  "bob = \<lparr>up_id = 2, email = ''bob@example.org'', phone1 = ''555-0102'', phone2 = Some ''555-0103''\<rparr>"

definition rent :: invoice_type where
  "rent = \<lparr>it_id = 1, it_name = ''Rent''\<rparr>"

definition lease_2024 :: lease_contract where
  "lease_2024 = \<lparr>l_id = 7, l_tenant = alice, l_property = 1,
     l_start_date = \<lparr>year = 2024, month = 1, day = 1\<rparr>,
     l_end_date = \<lparr>year = 2024, month = 12, day = 31\<rparr>,
     l_rent_due_day = 1, l_days_grace_period = 5\<rparr>"

definition march_invoice :: "date option \<Rightarrow> invoice" where
  "march_invoice paid = \<lparr>i_id = 11, i_type = rent, i_payer = alice, i_payee = bob, i_property = 1,
     i_issued_date = \<lparr>year = 2024, month = 2, day = 20\<rparr>,
     i_due_date = Some \<lparr>year = 2024, month = 3, day = 1\<rparr>,
     i_paid_date = paid, i_amount = ''1200.00''\<rparr>"

definition note_to_bob :: message where
  "note_to_bob = \<lparr>m_id = 21, m_user_profile = alice, m_property = 1,
     m_sender = Some ''alice@example.org'', m_recipients = Some ''bob@example.org'',
     m_headline = ''Heating'',
     m_creation_date = ADatetime \<lparr>year = 2024, month = 3, day = 1\<rparr> 34200,
     m_type_name = ''email''\<rparr>"

definition rent_store :: "date option \<Rightarrow> store" where
  "rent_store paid = \<lparr>leases = [lease_2024], contracts = [], requests = [],
     messages = [note_to_bob], invoice_types = [rent], invoices = [march_invoice paid],
     owners = [(1, 2), (1, 1)]\<rparr>"

definition leak :: "user_profile option \<Rightarrow> date option \<Rightarrow> maintenance_request" where
  "leak assignee resolved = \<lparr>r_id = 31, r_property = 1, r_created_by = alice, r_assignee = assignee,
     r_headline = ''Leak'', r_creation_date = ADatetime \<lparr>year = 2024, month = 2, day = 5\<rparr> 61200,
     r_assigned_date = None, r_resolution_date = resolved\<rparr>"

definition maintenance_store :: "maintenance_request \<Rightarrow> store" where
  "maintenance_store request = \<lparr>leases = [lease_2024], contracts = [], requests = [request],
     messages = [], invoice_types = [rent], invoices = [], owners = [(1, 2)]\<rparr>"

definition plain_sref :: "string \<Rightarrow> int \<Rightarrow> string" where
  "plain_sref name ident = name"


definition march_gathered :: "event list" where
  "march_gathered =
     [build_event ''Lease Started'' (ADate \<lparr>year = 2024, month = 1, day = 1\<rparr>) 1
        ''View Lease'' ''lease-detail'' ''lease'',
      build_event ''Lease Started'' (ADate \<lparr>year = 2024, month = 1, day = 1\<rparr>) 1
        ''View Lease'' ''lease-detail'' ''lease'',
      build_event ''email: Heating'' (ADatetime \<lparr>year = 2024, month = 3, day = 1\<rparr> 34200) 1
        ''View'' ''message-detail'' ''email'',
      build_event ''Rent Created: 1200.00'' (ADate \<lparr>year = 2024, month = 2, day = 20\<rparr>) 2
        ''View Invoice'' ''invoice-detail'' ''invoice'',
      build_event ''Rent Due: 1200.00'' (ADate \<lparr>year = 2024, month = 3, day = 1\<rparr>) 2
        ''View Invoice'' ''invoice-detail'' ''invoice'',
      build_event ''Rent Paid: 1200.00'' (ADate \<lparr>year = 2024, month = 3, day = 2\<rparr>) 2
        ''View Invoice'' ''invoice-detail'' ''invoice'']"

definition march_feed :: "event list" where
  "march_feed =
     [build_event ''Rent Paid: 1200.00'' (ADate \<lparr>year = 2024, month = 3, day = 2\<rparr>) 2
        ''View Invoice'' ''invoice-detail'' ''invoice'',
      build_event ''email: Heating'' (ADatetime \<lparr>year = 2024, month = 3, day = 1\<rparr> 34200) 1
        ''View'' ''message-detail'' ''email'',
      build_event ''Rent Due: 1200.00'' (ADate \<lparr>year = 2024, month = 3, day = 1\<rparr>) 2
        ''View Invoice'' ''invoice-detail'' ''invoice'',
      build_event ''Rent Created: 1200.00'' (ADate \<lparr>year = 2024, month = 2, day = 20\<rparr>) 2
        ''View Invoice'' ''invoice-detail'' ''invoice'',
      build_event ''Lease Started'' (ADate \<lparr>year = 2024, month = 1, day = 1\<rparr>) 1
        ''View Lease'' ''lease-detail'' ''lease'']"

definition owner_feed :: "event list" where
  "owner_feed =
     [build_event ''Lease Ended'' (ADate \<lparr>year = 2024, month = 12, day = 31\<rparr>) 1
        ''View Lease'' ''lease-detail'' ''lease'',
      build_event ''Rent Paid: 1200.00'' (ADate \<lparr>year = 2024, month = 3, day = 2\<rparr>) 1
        ''View Invoice'' ''invoice-detail'' ''invoice'',
      build_event ''Rent Due: 1200.00'' (ADate \<lparr>year = 2024, month = 3, day = 1\<rparr>) 1
        ''View Invoice'' ''invoice-detail'' ''invoice'',
      build_event ''Rent Created: 1200.00'' (ADate \<lparr>year = 2024, month = 2, day = 20\<rparr>) 1
        ''View Invoice'' ''invoice-detail'' ''invoice'',
      build_event ''Lease Started'' (ADate \<lparr>year = 2024, month = 1, day = 1\<rparr>) 1
        ''View Lease'' ''lease-detail'' ''lease'']"

section \<open>Unfolding the model\<close>

lemmas date_defs = ymd_def date_lt_def date_le_def isleap_def mdays_def days_in_month_def
  monthrange_def mk_date_def sub_one_month_def set_day_def timedelta_def days_before_year_def
  days_before_month_common_def days_before_month_def toordinal_def fromordinal_def date_add_def
  Let_def

lemmas rent_defs = objects_get_def get_active_leases_def this_month_due_date_def last_due_def
  rent_invoice_def lease_pass_def get_rent_status_def

lemmas activity_defs = build_event_def and_then_def get_tenants_def lease_events_def
  managed_leases_def contract_events_def loop_variable_def read_contract_def
  contract_created_by_def contract_assignee_def on_or_before_def assigned_request_events_def
  created_request_events_def contact_values_def message_events_def other_party_def
  invoice_events_def gather_def sort_key_of_def sort_reverse_def get_activity_def

lemmas sample_defs = alice_def bob_def rent_def lease_2024_def march_invoice_def note_to_bob_def
  rent_store_def leak_def maintenance_store_def plain_sref_def march_gathered_def march_feed_def
  owner_feed_def

section \<open>Facts about dates\<close>

lemma days_in_month_bounds: "28 \<le> days_in_month y m \<and> days_in_month y m \<le> 31"
  by (auto simp: days_in_month_def mdays_def)

lemma mk_date_ok:
  "1 \<le> y \<Longrightarrow> y \<le> 9999 \<Longrightarrow> 1 \<le> m \<Longrightarrow> m \<le> 12 \<Longrightarrow> 1 \<le> d \<Longrightarrow> d \<le> days_in_month y m
   \<Longrightarrow> mk_date y m d = Inr \<lparr>year = y, month = m, day = d\<rparr>"
  by (simp add: mk_date_def)

lemma due_date_of_month:
  assumes "valid_date today" and "1 \<le> rdd"
  shows "this_month_due_date today rdd =
           Inr \<lparr>year = year today, month = month today,
                day = min rdd (days_in_month (year today) (month today))\<rparr>"
  using assms
  by (auto simp: this_month_due_date_def mk_date_def monthrange_def valid_date_def min_def)

lemma sub_one_month_eq:
  assumes y: "1 \<le> year d" "year d \<le> 9999" and m: "1 \<le> month d" "month d \<le> 12"
    and d: "1 \<le> day d" and p: "1 < year d \<or> 1 < month d"
  shows "sub_one_month d = Inr \<lparr>year = spec_prior_year d, month = spec_prior_month d,
        day = min (days_in_month (spec_prior_year d) (spec_prior_month d)) (day d)\<rparr>"
proof (cases "month d = 1")
  case True
  then have y1: "1 \<le> year d - 1" using p by simp
  have "1 \<le> min (days_in_month (year d - 1) 12) (day d)"
    using d days_in_month_bounds[of "year d - 1" 12] by simp
  then have "mk_date (year d - 1) 12 (min (days_in_month (year d - 1) 12) (day d))
      = Inr \<lparr>year = year d - 1, month = 12, day = min (days_in_month (year d - 1) 12) (day d)\<rparr>"
    using y1 y by (intro mk_date_ok) simp_all
  then show ?thesis
    using True y y1
    by (simp add: sub_one_month_def Let_def monthrange_def spec_prior_year_def spec_prior_month_def)
next
  case False
  then have m1: "1 \<le> month d - 1" "month d - 1 \<le> 12" using m by simp_all
  have "1 \<le> min (days_in_month (year d) (month d - 1)) (day d)"
    using d days_in_month_bounds[of "year d" "month d - 1"] by simp
  then have "mk_date (year d) (month d - 1) (min (days_in_month (year d) (month d - 1)) (day d))
      = Inr \<lparr>year = year d, month = month d - 1,
             day = min (days_in_month (year d) (month d - 1)) (day d)\<rparr>"
    using m1 y by (intro mk_date_ok) simp_all
  then show ?thesis
    using False y m1
    by (simp add: sub_one_month_def Let_def monthrange_def spec_prior_year_def spec_prior_month_def)
qed

lemma set_day_eq:
  assumes "valid_date d" and "1 \<le> x"
  shows "set_day d x = Inr \<lparr>year = year d, month = month d,
           day = min (days_in_month (year d) (month d)) x\<rparr>"
proof -
  have "1 \<le> min (days_in_month (year d) (month d)) x"
    using assms days_in_month_bounds[of "year d" "month d"] by simp
  then have "mk_date (year d) (month d) (min (days_in_month (year d) (month d)) x)
      = Inr \<lparr>year = year d, month = month d, day = min (days_in_month (year d) (month d)) x\<rparr>"
    using assms by (intro mk_date_ok) (simp_all add: valid_date_def)
  then show ?thesis using assms by (simp add: set_day_def monthrange_def valid_date_def)
qed

section \<open>The due date of the month and the date rent was last due\<close>

text \<open>
  C5. For a lease whose \<^verbatim>\<open>rent_due_day\<close> exceeds the number of days of the month of the
  reference date, \<^verbatim>\<open>get_rent_status\<close> computes \<^verbatim>\<open>this_month_due_date\<close> as the last day of
  that month; otherwise it is the date of that year and month whose day is
  \<^verbatim>\<open>rent_due_day\<close>. The due day is a day of a month, at least 1, as the data model of the
  specification has it.
\<close>

theorem this_month_due_date_clamped:
  assumes "valid_date today" and "1 \<le> rdd"
  shows "(days_in_month (year today) (month today) < rdd \<longrightarrow>
           this_month_due_date today rdd =
             Inr \<lparr>year = year today, month = month today,
                  day = days_in_month (year today) (month today)\<rparr>)
       \<and> (rdd \<le> days_in_month (year today) (month today) \<longrightarrow>
           this_month_due_date today rdd =
             Inr \<lparr>year = year today, month = month today, day = rdd\<rparr>)"
  using due_date_of_month[OF assms] by (simp add: min_def)

theorem this_month_due_date_clamped_witness:
  "valid_date \<lparr>year = 2024, month = 2, day = 10\<rparr> \<and> (1::int) \<le> 31
   \<and> days_in_month 2024 2 < 31
   \<and> this_month_due_date \<lparr>year = 2024, month = 2, day = 10\<rparr> 31
       = Inr \<lparr>year = 2024, month = 2, day = 29\<rparr>
   \<and> (15::int) \<le> days_in_month 2024 2
   \<and> this_month_due_date \<lparr>year = 2024, month = 2, day = 10\<rparr> 15
       = Inr \<lparr>year = 2024, month = 2, day = 15\<rparr>"
proof -
  have v: "valid_date \<lparr>year = 2024, month = 2, day = 10\<rparr>"
    by (simp add: valid_date_def days_in_month_def mdays_def isleap_def)
  have d: "days_in_month 2024 2 = 29"
    by (simp add: days_in_month_def mdays_def isleap_def)
  show ?thesis
    using v d this_month_due_date_clamped[OF v, of 31] this_month_due_date_clamped[OF v, of 15]
    by simp
qed

text \<open>
  C6. If the reference date is before \<^verbatim>\<open>this_month_due_date\<close>, then \<^verbatim>\<open>last_due\<close> is the
  date one month before it, set back on \<^verbatim>\<open>rent_due_day\<close> and cut to the last day of that
  earlier month when the earlier month has no such day; otherwise \<^verbatim>\<open>last_due\<close> is
  \<^verbatim>\<open>this_month_due_date\<close>. The month before exists for every reference date after
  January of the year 1, the first month a \<^verbatim>\<open>date\<close> can hold.
\<close>

theorem last_due_rollback:
  assumes v: "valid_date today" and r: "1 \<le> rdd"
    and t: "this_month_due_date today rdd = Inr tmdd"
    and y: "1 < year today \<or> 1 < month today"
  shows "last_due today tmdd rdd =
     Inr (if date_lt today tmdd
          then \<lparr>year = spec_prior_year today, month = spec_prior_month today,
                day = min rdd (days_in_month (spec_prior_year today) (spec_prior_month today))\<rparr>
          else tmdd)"
proof -
  have ym: "year tmdd = year today \<and> month tmdd = month today
      \<and> day tmdd = min rdd (days_in_month (year today) (month today))"
    using due_date_of_month[OF v r] t by auto
  let ?py = "spec_prior_year today" and ?pm = "spec_prior_month today"
  have pp: "spec_prior_year tmdd = ?py" "spec_prior_month tmdd = ?pm"
    using ym by (simp_all add: spec_prior_year_def spec_prior_month_def)
  have dt: "1 \<le> day tmdd"
    using ym r days_in_month_bounds[of "year today" "month today"] by simp
  have sub: "sub_one_month tmdd = Inr \<lparr>year = ?py, month = ?pm,
        day = min (days_in_month ?py ?pm) (day tmdd)\<rparr>"
    using sub_one_month_eq[of tmdd] ym v y dt pp by (simp add: valid_date_def)
  show ?thesis
  proof (cases "date_lt today tmdd")
    case False
    then show ?thesis by (simp add: last_due_def)
  next
    case True
    let ?ld = "\<lparr>year = ?py, month = ?pm, day = min (days_in_month ?py ?pm) (day tmdd)\<rparr>"
    show ?thesis
    proof (cases "min (days_in_month ?py ?pm) (day tmdd) = rdd")
      case same: True
      then have "min rdd (days_in_month ?py ?pm) = min (days_in_month ?py ?pm) (day tmdd)"
        by (simp add: min_def split: if_splits)
      then show ?thesis using True same sub by (simp add: last_due_def)
    next
      case diff: False
      have vl: "valid_date ?ld"
        using v y dt days_in_month_bounds[of ?py ?pm]
        by (auto simp: valid_date_def spec_prior_year_def spec_prior_month_def)
      have "set_day ?ld rdd
          = Inr \<lparr>year = ?py, month = ?pm, day = min rdd (days_in_month ?py ?pm)\<rparr>"
        using set_day_eq[OF vl r] by (simp add: min.commute)
      then show ?thesis using True diff sub by (simp add: last_due_def)
    qed
  qed
qed

theorem last_due_rollback_witness:
  "valid_date \<lparr>year = 2024, month = 3, day = 10\<rparr> \<and> (1::int) \<le> 31
   \<and> this_month_due_date \<lparr>year = 2024, month = 3, day = 10\<rparr> 31
       = Inr \<lparr>year = 2024, month = 3, day = 31\<rparr>
   \<and> ((1::int) < year \<lparr>year = 2024, month = 3, day = 10\<rparr>
       \<or> (1::int) < month \<lparr>year = 2024, month = 3, day = 10\<rparr>)
   \<and> last_due \<lparr>year = 2024, month = 3, day = 10\<rparr> \<lparr>year = 2024, month = 3, day = 31\<rparr> 31
       = Inr \<lparr>year = 2024, month = 2, day = 29\<rparr>"
proof -
  let ?today = "\<lparr>year = 2024, month = 3, day = 10\<rparr>"
  have v: "valid_date ?today"
    by (simp add: valid_date_def days_in_month_def mdays_def)
  have r: "(1::int) \<le> 31" by simp
  have t: "this_month_due_date ?today 31 = Inr \<lparr>year = 2024, month = 3, day = 31\<rparr>"
    by (simp add: this_month_due_date_def mk_date_def days_in_month_def mdays_def)
  have y: "1 < year ?today \<or> 1 < month ?today" by simp
  show ?thesis
    using v t last_due_rollback[OF v r t y]
    by (simp add: date_lt_def ymd_def spec_prior_year_def spec_prior_month_def
        days_in_month_def mdays_def isleap_def)
qed

section \<open>Rent status of the lease the lookup finds\<close>

text \<open>
  What one pass of the loop decides when the lease has started, its due dates can be
  computed, there is one invoice type called Rent and one invoice of that type for the
  tenant and the date rent was last due.
\<close>

lemma lease_pass_invoice:
  assumes "\<not> date_lt today (l_start_date lease)"
    and "this_month_due_date today (l_rent_due_day lease) = Inr tmdd"
    and "timedelta (l_days_grace_period lease) = Inr grace_period"
    and "last_due today tmdd (l_rent_due_day lease) = Inr ld"
    and "filter (\<lambda>t. it_name t = ''Rent'') (invoice_types st) = [rent_type]"
    and "filter (rent_invoice rent_type ld (l_tenant lease)) (invoices st) = [invoice]"
    and "date_add ld grace_period = Inr w"
  shows "lease_pass st today lease =
     Inr (Next (if i_paid_date invoice \<noteq> None then ''Paid''
                else if date_le ld today \<and> date_le today w then ''Due'' else ''Late''))"
  using assms by (simp add: lease_pass_def objects_get_def)

lemma lease_pass_no_invoice:
  assumes "\<not> date_lt today (l_start_date lease)"
    and "this_month_due_date today (l_rent_due_day lease) = Inr tmdd"
    and "timedelta (l_days_grace_period lease) = Inr grace_period"
    and "last_due today tmdd (l_rent_due_day lease) = Inr ld"
    and "filter (\<lambda>t. it_name t = ''Rent'') (invoice_types st) = [rent_type]"
    and "filter (rent_invoice rent_type ld (l_tenant lease)) (invoices st) = []"
  shows "lease_pass st today lease = Inl Invoice_DoesNotExist"
  using assms by (simp add: lease_pass_def objects_get_def)

lemma rent_status_one_lease:
  assumes "get_active_leases st self clock = [lease]"
    and "\<not> date_lt today (l_start_date lease)"
    and "this_month_due_date today (l_rent_due_day lease) = Inr tmdd"
    and "timedelta (l_days_grace_period lease) = Inr grace_period"
    and "last_due today tmdd (l_rent_due_day lease) = Inr ld"
    and "filter (\<lambda>t. it_name t = ''Rent'') (invoice_types st) = [rent_type]"
    and "filter (rent_invoice rent_type ld (l_tenant lease)) (invoices st) = [invoice]"
    and "date_add ld grace_period = Inr w"
  shows "get_rent_status st clock self today =
     Inr (if i_paid_date invoice \<noteq> None then ''Paid''
          else if date_le ld today \<and> date_le today w then ''Due'' else ''Late'')"
  using lease_pass_invoice[OF assms(2-8)] assms(1) by (simp add: get_rent_status_def)

lemma rent_status_no_invoice:
  assumes "get_active_leases st self clock = lease # rest"
    and "\<not> date_lt today (l_start_date lease)"
    and "this_month_due_date today (l_rent_due_day lease) = Inr tmdd"
    and "timedelta (l_days_grace_period lease) = Inr grace_period"
    and "last_due today tmdd (l_rent_due_day lease) = Inr ld"
    and "filter (\<lambda>t. it_name t = ''Rent'') (invoice_types st) = [rent_type]"
    and "filter (rent_invoice rent_type ld (l_tenant lease)) (invoices st) = []"
  shows "get_rent_status st clock self today = Inr ''!!''"
  using lease_pass_no_invoice[OF assms(2-7)] assms(1) by (simp add: get_rent_status_def)

lemma rent_status_no_lease:
  assumes "get_active_leases st self clock = []"
  shows "get_rent_status st clock self today = Inr ''!!''"
  using assms by (simp add: get_rent_status_def)

lemma rent_status_not_started:
  assumes "get_active_leases st self clock = lease # rest"
    and "date_lt today (l_start_date lease)"
  shows "get_rent_status st clock self today = Inr ''NA''"
  using assms by (simp add: get_rent_status_def lease_pass_def)

text \<open>
  The lookup is made on \<open>clock\<close>; a lease it returns has begun on or before \<open>clock\<close>.
  When the function is called on the reference date itself, the test of line 108 is
  therefore never true and the function never answers \<^verbatim>\<open>"NA"\<close>. The lemmas below also
  list the exceptions that leave the function.
\<close>

lemma active_lease_has_started:
  assumes "lease \<in> set (get_active_leases st self clock)"
  shows "\<not> date_lt clock (l_start_date lease)"
  using assms by (auto simp: get_active_leases_def date_le_def date_lt_def)

lemma mk_date_error: "mk_date y m d = Inl e \<Longrightarrow> e = ValueError"
  by (simp add: mk_date_def split: if_splits)

lemma monthrange_error: "monthrange y m = Inl e \<Longrightarrow> e = ValueError"
  by (simp add: monthrange_def split: if_splits)

lemma this_month_due_date_error: "this_month_due_date today rdd = Inl e \<Longrightarrow> e = ValueError"
  by (auto simp: this_month_due_date_def split: sum.splits dest: mk_date_error monthrange_error)

lemma timedelta_error: "timedelta n = Inl e \<Longrightarrow> e = OverflowError"
  by (simp add: timedelta_def split: if_splits)

lemma sub_one_month_error: "sub_one_month d = Inl e \<Longrightarrow> e = ValueError"
  by (auto simp: sub_one_month_def Let_def split: sum.splits dest: mk_date_error monthrange_error)

lemma set_day_error: "set_day d x = Inl e \<Longrightarrow> e = ValueError"
  by (auto simp: set_day_def split: sum.splits dest: mk_date_error monthrange_error)

lemma last_due_error: "last_due today tmdd rdd = Inl e \<Longrightarrow> e = ValueError"
  by (auto simp: last_due_def split: sum.splits if_splits dest: sub_one_month_error set_day_error)

lemma date_add_error: "date_add d n = Inl e \<Longrightarrow> e = OverflowError"
  by (simp add: date_add_def Let_def split: if_splits)

lemma objects_get_error: "objects_get dne P tbl = Inl e \<Longrightarrow> e = dne \<or> e = MultipleObjectsReturned"
  by (auto simp: objects_get_def split: list.splits)

lemma lease_pass_started:
  assumes "\<not> date_lt today (l_start_date lease)"
  shows "lease_pass st today lease \<in>
     {Inl ValueError, Inl OverflowError, Inl InvoiceType_DoesNotExist, Inl Invoice_DoesNotExist,
      Inl MultipleObjectsReturned, Inr (Next ''Paid''), Inr (Next ''Due''), Inr (Next ''Late'')}"
proof (cases "this_month_due_date today (l_rent_due_day lease)")
  case (Inl e)
  then show ?thesis using assms this_month_due_date_error[OF Inl] by (simp add: lease_pass_def)
next
  case tm: (Inr tmdd)
  show ?thesis
  proof (cases "timedelta (l_days_grace_period lease)")
    case (Inl e)
    then show ?thesis using assms tm timedelta_error[OF Inl] by (simp add: lease_pass_def)
  next
    case td: (Inr g)
    show ?thesis
    proof (cases "last_due today tmdd (l_rent_due_day lease)")
      case (Inl e)
      then show ?thesis using assms tm td last_due_error[OF Inl] by (simp add: lease_pass_def)
    next
      case ld: (Inr ldd)
      show ?thesis
      proof (cases "objects_get InvoiceType_DoesNotExist (\<lambda>t. it_name t = ''Rent'') (invoice_types st)")
        case (Inl e)
        then show ?thesis using assms tm td ld objects_get_error[OF Inl]
          by (auto simp: lease_pass_def)
      next
        case ty: (Inr rent_type)
        show ?thesis
        proof (cases "objects_get Invoice_DoesNotExist (rent_invoice rent_type ldd (l_tenant lease)) (invoices st)")
          case (Inl e)
          then show ?thesis using assms tm td ld ty objects_get_error[OF Inl]
            by (auto simp: lease_pass_def)
        next
          case (Inr invoice)
          show ?thesis
          proof (cases "date_add ldd g")
            case (Inl e)
            then show ?thesis using assms tm td ld ty Inr date_add_error[OF Inl]
              by (simp add: lease_pass_def)
          next
            case w: (Inr w)
            then show ?thesis using assms tm td ld ty Inr by (simp add: lease_pass_def)
          qed
        qed
      qed
    qed
  qed
qed


lemma rent_loop_started:
  assumes "\<forall>lease \<in> set ls. \<not> date_lt today (l_start_date lease)"
  shows "rent_loop st today ls ret \<in>
     {Inl ValueError, Inl OverflowError, Inl InvoiceType_DoesNotExist, Inl Invoice_DoesNotExist,
      Inl MultipleObjectsReturned, Inr ret, Inr ''Paid'', Inr ''Due'', Inr ''Late''}"
  using assms
proof (induction ls arbitrary: ret)
  case Nil
  then show ?case by simp
next
  case (Cons lease rest)
  have started: "\<not> date_lt today (l_start_date lease)"
    and others: "\<forall>lease \<in> set rest. \<not> date_lt today (l_start_date lease)"
    using Cons.prems by simp_all
  show ?case
  proof (cases "lease_pass st today lease")
    case (Inl e)
    then show ?thesis using lease_pass_started[OF started, of st] by auto
  next
    case (Inr stp)
    then obtain s where s: "stp = Next s" "s = ''Paid'' \<or> s = ''Due'' \<or> s = ''Late''"
      using lease_pass_started[OF started, of st] by auto
    show ?thesis using Inr s Cons.IH[OF others, of s] by auto
  qed
qed

lemma rent_status_on_clock:
  "get_rent_status st today self today \<in>
     {Inl ValueError, Inl OverflowError, Inl InvoiceType_DoesNotExist, Inl MultipleObjectsReturned,
      Inr ''!!'', Inr ''Paid'', Inr ''Due'', Inr ''Late''}"
proof -
  have "\<forall>lease \<in> set (get_active_leases st self today). \<not> date_lt today (l_start_date lease)"
    using active_lease_has_started by blast
  from rent_loop_started[OF this, of st "''!!''"] show ?thesis
    by (auto simp: get_rent_status_def)
qed

lemma rent_status_on_clock_never_NA:
  "get_rent_status st today self today \<noteq> Inr ''NA''"
  using rent_status_on_clock[of st today self] by auto

section \<open>The activity feed: what it returns\<close>

lemma set_listing_remdups: "set_listing remdups"
  by (simp add: set_listing_def)

text \<open>
  C7. The list returned by \<^verbatim>\<open>get_activity\<close> holds no two events with the same headline,
  date, person, actionText, action and type: events equal on all six fields are
  collapsed to one, so that every event gathered occurs in the list exactly once.
\<close>

theorem get_activity_distinct:
  assumes "set_listing listing"
    and "get_activity sref listing st clock self user today = Inr evs"
  shows "distinct evs
     \<and> (\<forall>activity. gather sref st clock self user today = Inr activity \<longrightarrow> set evs = set activity)"
  using assms
  by (auto simp: get_activity_def sort_reverse_def set_listing_def split: sum.splits)

theorem get_activity_distinct_witness:
  "set_listing remdups
   \<and> get_activity plain_sref remdups (rent_store (Some \<lparr>year = 2024, month = 3, day = 2\<rparr>))
       \<lparr>year = 2024, month = 3, day = 3\<rparr> 1 alice \<lparr>year = 2024, month = 3, day = 3\<rparr>
     = Inr march_feed
   \<and> gather plain_sref (rent_store (Some \<lparr>year = 2024, month = 3, day = 2\<rparr>))
       \<lparr>year = 2024, month = 3, day = 3\<rparr> 1 alice \<lparr>year = 2024, month = 3, day = 3\<rparr>
     = Inr march_gathered
   \<and> distinct march_feed \<and> set march_feed = set march_gathered"
proof -
  have g: "get_activity plain_sref remdups (rent_store (Some \<lparr>year = 2024, month = 3, day = 2\<rparr>))
       \<lparr>year = 2024, month = 3, day = 3\<rparr> 1 alice \<lparr>year = 2024, month = 3, day = 3\<rparr>
     = Inr march_feed"
    by (simp add: date_defs activity_defs sample_defs)
  have a: "gather plain_sref (rent_store (Some \<lparr>year = 2024, month = 3, day = 2\<rparr>))
       \<lparr>year = 2024, month = 3, day = 3\<rparr> 1 alice \<lparr>year = 2024, month = 3, day = 3\<rparr>
     = Inr march_gathered"
    by (simp add: date_defs activity_defs sample_defs)
  show ?thesis
    using set_listing_remdups g a get_activity_distinct[OF set_listing_remdups g] by simp
qed

text \<open>
  C8. The list returned by \<^verbatim>\<open>get_activity\<close> is sorted by the date of the events, latest
  first, where a datetime counts as its calendar day; two events of the same day may
  come in either order.
\<close>

theorem get_activity_sorted:
  assumes "get_activity sref listing st clock self user today = Inr evs"
  shows "sorted_wrt (\<lambda>a b. date_le (day_of (ev_date b)) (day_of (ev_date a))) evs"
proof -
  obtain activity where evs: "evs = rev (sort_key sort_key_of (rev (listing activity)))"
    using assms by (auto simp: get_activity_def sort_reverse_def split: sum.splits)
  have "sorted (map sort_key_of (sort_key sort_key_of (rev (listing activity))))"
    by (rule sorted_sort_key)
  then have "sorted_wrt (\<lambda>a b. sort_key_of a \<le> sort_key_of b)
      (sort_key sort_key_of (rev (listing activity)))"
    by (simp add: sorted_map)
  then show ?thesis
    unfolding evs sorted_wrt_rev by (simp add: date_le_def sort_key_of_def)
qed

theorem get_activity_sorted_witness:
  "get_activity plain_sref remdups (rent_store (Some \<lparr>year = 2024, month = 3, day = 2\<rparr>))
       \<lparr>year = 2025, month = 1, day = 15\<rparr> 1 bob \<lparr>year = 2025, month = 1, day = 15\<rparr>
     = Inr owner_feed
   \<and> sorted_wrt (\<lambda>a b. date_le (day_of (ev_date b)) (day_of (ev_date a))) owner_feed"
proof -
  have g: "get_activity plain_sref remdups (rent_store (Some \<lparr>year = 2024, month = 3, day = 2\<rparr>))
       \<lparr>year = 2025, month = 1, day = 15\<rparr> 1 bob \<lparr>year = 2025, month = 1, day = 15\<rparr>
     = Inr owner_feed"
    by (simp add: date_defs activity_defs sample_defs)
  show ?thesis
    using g get_activity_sorted[OF g] by simp
qed

section \<open>The activity feed: requests and the variable of an earlier loop\<close>

text \<open>
  The loop over the requests assigned to the user reads \<^verbatim>\<open>contract.created_by\<close> in its
  first statement: with a request to run over, the function raises whatever the store
  holds besides.
\<close>

lemma assigned_request_raises:
  "assigned_request_events sref v today request = Inl NameError
   \<or> assigned_request_events sref v today request = Inl AttributeError"
  by (cases v) (simp_all add: assigned_request_events_def and_then_def read_contract_def
      contract_created_by_def)

lemma closed_created_request_raises:
  assumes "on_or_before (r_resolution_date request) today"
  shows "created_request_events sref v today request = Inl NameError
   \<or> created_request_events sref v today request = Inl AttributeError"
  using assms
  by (cases v) (simp_all add: created_request_events_def and_then_def read_contract_def
      contract_assignee_def)

text \<open>
  C1. Both \<^verbatim>\<open>get_rent_status\<close> and \<^verbatim>\<open>get_activity\<close> are to return a value for every
  property, user and date, \<^verbatim>\<open>get_activity\<close> in particular when the property has
  maintenance requests and the user no management contract. The code does not: for a
  request assigned to the user on a property where the user manages nothing, the
  variable \<^verbatim>\<open>contract\<close> of line 280 is unbound and the call ends in a \<^verbatim>\<open>NameError\<close>.
\<close>

theorem activity_unbound_contract:
  "get_activity plain_sref remdups (maintenance_store (leak (Some bob) None))
     \<lparr>year = 2024, month = 3, day = 3\<rparr> 1 bob \<lparr>year = 2024, month = 3, day = 3\<rparr>
   = Inl NameError"
  by (simp add: date_defs activity_defs sample_defs)

text \<open>
  C9. A request created by the viewing user, resolved on or before the reference date
  and never assigned, is to give two events, a new request and a closed request. The
  code reads \<^verbatim>\<open>contract.assignee\<close> for the second event (line 321), where the request
  is meant: without a management contract of the user the call ends in a
  \<^verbatim>\<open>NameError\<close> and returns no event at all.
\<close>

theorem closed_request_unbound_contract:
  "get_activity plain_sref remdups
     (maintenance_store (leak None (Some \<lparr>year = 2024, month = 2, day = 10\<rparr>)))
     \<lparr>year = 2024, month = 3, day = 3\<rparr> 1 alice \<lparr>year = 2024, month = 3, day = 3\<rparr>
   = Inl NameError"
  by (simp add: date_defs activity_defs sample_defs)

section \<open>Rent status and the day of the call\<close>

text \<open>
  C2. With a lease active on the reference date and a matching Rent invoice, the status
  is to be Paid exactly when the invoice has a paid date. The code looks the lease up
  on the day of the call (line 106): asked on 2025-02-01 about 2024-03-03, it finds no
  lease, although the lease of 2024 covers the reference date and its March invoice was
  paid on 2024-03-02, and answers \<^verbatim>\<open>"!!"\<close>.
\<close>

theorem paid_rent_off_clock:
  "get_rent_status (rent_store (Some \<lparr>year = 2024, month = 3, day = 2\<rparr>))
     \<lparr>year = 2025, month = 2, day = 1\<rparr> 1 \<lparr>year = 2024, month = 3, day = 3\<rparr>
   = Inr ''!!''"
  by (simp add: date_defs rent_defs sample_defs)

text \<open>
  C3. The status is to be \<^verbatim>\<open>"!!"\<close> exactly when the active lease has no Rent invoice for
  the date rent was last due. Asked on 2025-02-01 about 2024-03-03, the code answers
  \<^verbatim>\<open>"!!"\<close> although the lease covers the reference date and the unpaid invoice due on
  2024-03-01 exists; asked on 2024-03-03 it answers Due.
\<close>

theorem unpaid_rent_off_clock:
  "get_rent_status (rent_store None)
     \<lparr>year = 2025, month = 2, day = 1\<rparr> 1 \<lparr>year = 2024, month = 3, day = 3\<rparr>
   = Inr ''!!''
   \<and> get_rent_status (rent_store None)
     \<lparr>year = 2024, month = 3, day = 3\<rparr> 1 \<lparr>year = 2024, month = 3, day = 3\<rparr>
   = Inr ''Due''"
  by (simp add: date_defs rent_defs sample_defs)

text \<open>
  C4. When no lease is active on the reference date and a lease begins after it, the
  status is to be NA. On 2023-12-15 the lease of 2024 has not begun and no other lease
  exists; the lookup of active leases returns nothing, the loop holding the test for a
  lease that has not begun never runs, and the code answers \<^verbatim>\<open>"!!"\<close>.
\<close>

theorem future_lease_not_NA:
  "get_rent_status (rent_store None)
     \<lparr>year = 2023, month = 12, day = 15\<rparr> 1 \<lparr>year = 2023, month = 12, day = 15\<rparr>
   = Inr ''!!''"
  by (simp add: date_defs rent_defs sample_defs)

text \<open>
  C10. Two calls with the same property, user and reference date on the same store are to
  return the same result whatever the day of the call. Both functions read
  \<^verbatim>\<open>date.today()\<close> (lines 106 and 340): the rent status of 2024-03-03 is Paid when asked
  on that day and \<^verbatim>\<open>"!!"\<close> when asked a year later, and the feed of Alice loses her
  message once no tenant is active on the day of the call.
\<close>

theorem results_depend_on_clock:
  "get_rent_status (rent_store (Some \<lparr>year = 2024, month = 3, day = 2\<rparr>))
     \<lparr>year = 2024, month = 3, day = 3\<rparr> 1 \<lparr>year = 2024, month = 3, day = 3\<rparr>
   \<noteq> get_rent_status (rent_store (Some \<lparr>year = 2024, month = 3, day = 2\<rparr>))
     \<lparr>year = 2025, month = 3, day = 3\<rparr> 1 \<lparr>year = 2024, month = 3, day = 3\<rparr>
   \<and> get_activity plain_sref remdups (rent_store (Some \<lparr>year = 2024, month = 3, day = 2\<rparr>))
     \<lparr>year = 2024, month = 3, day = 3\<rparr> 1 alice \<lparr>year = 2024, month = 3, day = 3\<rparr>
   \<noteq> get_activity plain_sref remdups (rent_store (Some \<lparr>year = 2024, month = 3, day = 2\<rparr>))
     \<lparr>year = 2025, month = 3, day = 3\<rparr> 1 alice \<lparr>year = 2024, month = 3, day = 3\<rparr>"
proof -
  let ?st = "rent_store (Some \<lparr>year = 2024, month = 3, day = 2\<rparr>)"
  let ?day = "\<lparr>year = 2024, month = 3, day = 3\<rparr>"
  let ?later = "\<lparr>year = 2025, month = 3, day = 3\<rparr>"
  have paid: "get_rent_status ?st ?day 1 ?day = Inr ''Paid''"
    by (simp add: date_defs rent_defs sample_defs)
  have unknown: "get_rent_status ?st ?later 1 ?day = Inr ''!!''"
    by (simp add: date_defs rent_defs sample_defs)
  have five: "length (projr (get_activity plain_sref remdups ?st ?day 1 alice ?day)) = 5"
    by (simp add: date_defs activity_defs sample_defs)
  have four: "length (projr (get_activity plain_sref remdups ?st ?later 1 alice ?day)) = 4"
    by (simp add: date_defs activity_defs sample_defs)
  have "get_rent_status ?st ?day 1 ?day \<noteq> get_rent_status ?st ?later 1 ?day"
    unfolding paid unknown by simp
  moreover have "get_activity plain_sref remdups ?st ?day 1 alice ?day
      \<noteq> get_activity plain_sref remdups ?st ?later 1 alice ?day"
  proof
    assume "get_activity plain_sref remdups ?st ?day 1 alice ?day
      = get_activity plain_sref remdups ?st ?later 1 alice ?day"
    then have "length (projr (get_activity plain_sref remdups ?st ?day 1 alice ?day))
      = length (projr (get_activity plain_sref remdups ?st ?later 1 alice ?day))"
      by (rule arg_cong)
    then show False unfolding five four by simp
  qed
  ultimately show ?thesis by (rule conjI)
qed

end
